theory Spec2Isabelle
  imports Main
begin

section \<open>Server actions of the case simulator (src/lib/actions.ts)\<close>

text \<open>
  The file \<^verbatim>\<open>src/lib/actions.ts\<close> holds six exported asynchronous functions. They
  read and write three things outside themselves: the cookie store of the request
  (\<^verbatim>\<open>cookies()\<close>), the \<^verbatim>\<open>items\<close> table behind the ORM (\<^verbatim>\<open>db\<close>), and the
  registry of promises handed to \<^verbatim>\<open>waitUntil\<close>. They also draw from the platform's
  UUID generator and read the clock. All of it is one record, \<open>world\<close>, passed in and
  returned. Writes to the console are not modelled.
\<close>

subsection \<open>Strings and the UUID pattern\<close>

text \<open>\<^verbatim>\<open>s.startsWith(p)\<close>.\<close>

definition startsWith :: "string \<Rightarrow> string \<Rightarrow> bool" where
  "startsWith s p = (take (length p) s = p)"

text \<open>
  The regular expression of \<^verbatim>\<open>getOrCreateUnboxerIdCookie\<close>,
  \<^verbatim>\<open>/^[0-9a-f]{8}-[0-9a-f]{4}-[0-5][0-9a-f]{3}-[089ab][0-9a-f]{3}-[0-9a-f]{12}$/i\<close>,
  as the list of its 36 character classes. The flag \<^verbatim>\<open>i\<close> adds the upper-case
  letters to each class; \<^verbatim>\<open>^\<close> and \<^verbatim>\<open>$\<close> (no flag \<^verbatim>\<open>m\<close>) anchor the match at both
  ends of the string, so a string matches when it has one character per class.
\<close>

definition hexClass :: string where
  "hexClass = ''0123456789abcdefABCDEF''"

definition uuidPattern :: "string list" where
  "uuidPattern =
     replicate 8 hexClass @ [''-''] @
     replicate 4 hexClass @ [''-''] @
     [''012345''] @ replicate 3 hexClass @ [''-''] @
     [''089abAB''] @ replicate 3 hexClass @ [''-''] @
     replicate 12 hexClass"

definition isValidUUID :: "string \<Rightarrow> bool" where
  "isValidUUID s = list_all2 (\<lambda>c cls. c \<in> set cls) s uuidPattern"

subsection \<open>Data\<close>

text \<open>
  \<^verbatim>\<open>CaseDataType\<close>: the three fields this file reads. The record is extensible, and
  the functions below take any extension of it: the item pools of a catalog entry sit
  in the extension and are read by \<^verbatim>\<open>getItem\<close> only.
\<close>

record case_data =
  case_id :: string
  case_name :: string
  case_image :: string

text \<open>A field declared \<^verbatim>\<open>phase?: string | null\<close>.\<close>

datatype optional_nullable = Undefined | Null | Str string

record rarity_type =
  rarity_name :: string

text \<open>\<^verbatim>\<open>ItemType\<close>: the fields this file reads.\<close>

record item_type =
  item_id :: string
  item_name :: string
  item_rarity :: rarity_type
  item_phase :: optional_nullable
  item_image :: string

text \<open>An element of the argument of \<^verbatim>\<open>addItemsToDB\<close>.\<close>

record payload =
  caseData :: case_data
  itemData :: item_type

text \<open>
  The object given to \<^verbatim>\<open>db.insert(items).values\<close>, with the keys of the source. A
  \<open>phase\<close> of \<open>None\<close> is SQL NULL.
\<close>

record item_values =
  caseId :: string
  caseName :: string
  caseImage :: string
  itemId :: string
  itemName :: string
  rarity :: string
  phase :: "string option"
  itemImage :: string
  unboxerId :: string

text \<open>
  Modelled from the spec: the table declaration \<^verbatim>\<open>items\<close> of \<^verbatim>\<open>@/db/schema\<close> is not
  among the sources. A stored row is the inserted values and the column \<^verbatim>\<open>id\<close>, an
  "auto-incrementing identifier" (spec, section 2), here \<open>rowId\<close>.
\<close>

record row = item_values +
  rowId :: nat

record cookie =
  cookieValue :: string
  cookieExpires :: "nat option"
  cookieHttpOnly :: bool

datatype exn = DbError | TypeError

text \<open>
  The promise of an \<^verbatim>\<open>addItemToDB\<close> call at the moment the caller gets it: already
  fulfilled (the early \<^verbatim>\<open>return false\<close>), or suspended at its first \<^verbatim>\<open>await\<close> with the
  insert still to run.
\<close>

datatype pending = Fulfilled bool | Suspended item_values

record world =
  cookieStore :: "string \<rightharpoonup> cookie"
  uuidSupply :: "nat \<Rightarrow> string"
  uuidsDrawn :: nat
  clock :: nat
  items :: "row list"
  serial :: nat
  dbFails :: bool
  waited :: "pending list"

text \<open>
  \<open>uuidSupply\<close> and \<open>uuidsDrawn\<close> stand for \<^verbatim>\<open>crypto.randomUUID\<close>: the values it will
  return, and how many it has returned. \<open>clock\<close> is \<^verbatim>\<open>Date.now()\<close> in milliseconds.
  \<open>serial\<close> is the last identifier the table has given out. \<open>dbFails\<close> says whether the
  next statement sent to the database throws.
\<close>

subsection \<open>The platform: UUIDs, cookies, waitUntil\<close>

definition randomUUID :: "world \<Rightarrow> string \<times> world" where
  "randomUUID w = (uuidSupply w (uuidsDrawn w), w\<lparr>uuidsDrawn := Suc (uuidsDrawn w)\<rparr>)"

definition cookies_get :: "string \<Rightarrow> world \<Rightarrow> cookie option" where
  "cookies_get name w = cookieStore w name"

definition cookies_set :: "string \<Rightarrow> string \<Rightarrow> nat \<Rightarrow> bool \<Rightarrow> world \<Rightarrow> world" where
  "cookies_set name v expires httpOnly w =
     w\<lparr>cookieStore := (cookieStore w)(name \<mapsto>
         \<lparr>cookieValue = v, cookieExpires = Some expires, cookieHttpOnly = httpOnly\<rparr>)\<rparr>"

definition waitUntil :: "pending \<Rightarrow> world \<Rightarrow> world" where
  "waitUntil p w = w\<lparr>waited := waited w @ [p]\<rparr>"

subsection \<open>getOrCreateUnboxerIdCookie\<close>

text \<open>Lines 222 to 229: draw a UUID, set the cookie for a year, return the UUID.\<close>

definition newUnboxerIdCookie :: "world \<Rightarrow> string \<times> world" where
  "newUnboxerIdCookie w =
     (let (newUnboxerId, w1) = randomUUID w
      in (newUnboxerId,
          cookies_set ''unboxerId'' newUnboxerId
            (clock w1 + 1000 * 60 * 60 * 24 * 365) True w1))"

definition getOrCreateUnboxerIdCookie :: "world \<Rightarrow> string \<times> world" where
  "getOrCreateUnboxerIdCookie w =
     (case cookies_get ''unboxerId'' w of
        Some existingUnboxerId \<Rightarrow>
          if isValidUUID (cookieValue existingUnboxerId)
          then (cookieValue existingUnboxerId, w)
          else newUnboxerIdCookie w
      | None \<Rightarrow> newUnboxerIdCookie w)"

subsection \<open>The database\<close>

text \<open>
  What the ORM calls of the source do to the table. Each call is one SQL statement. A
  statement that throws leaves the table as it was. \<^verbatim>\<open>values\<close> throws on an empty
  array before anything is sent.
\<close>

definition stored :: "nat \<Rightarrow> item_values \<Rightarrow> row" where
  "stored n v =
     \<lparr>caseId = caseId v, caseName = caseName v, caseImage = caseImage v,
      itemId = itemId v, itemName = itemName v, rarity = rarity v, phase = phase v,
      itemImage = itemImage v, unboxerId = unboxerId v, rowId = n\<rparr>"

text \<open>\<^verbatim>\<open>db.insert(items).values(vs)\<close>: the rows get the next identifiers, in order.\<close>

definition db_insert :: "item_values list \<Rightarrow> world \<Rightarrow> (exn + unit) \<times> world" where
  "db_insert vs w =
     (if vs = [] \<or> dbFails w then (Inl DbError, w)
      else (Inr (),
            w\<lparr>items := items w @ map (\<lambda>(n, v). stored n v) (enumerate (Suc (serial w)) vs),
              serial := serial w + length vs\<rparr>))"

text \<open>
  Conditions on a row. \<^verbatim>\<open>and\<close> drops its \<^verbatim>\<open>undefined\<close> arguments and is itself
  \<^verbatim>\<open>undefined\<close> (here \<open>None\<close>) when none is left; \<^verbatim>\<open>where(undefined)\<close> keeps every row.
\<close>

type_synonym condition = "row \<Rightarrow> bool"

definition inArray :: "(row \<Rightarrow> 'a) \<Rightarrow> 'a list \<Rightarrow> condition" where
  "inArray column vs r = (column r \<in> set vs)"

definition eq_sql :: "(row \<Rightarrow> 'a) \<Rightarrow> 'a \<Rightarrow> condition" where
  "eq_sql column v r = (column r = v)"

definition and_sql :: "condition option \<Rightarrow> condition option \<Rightarrow> condition option" where
  "and_sql a b =
     (case a of
        None \<Rightarrow> b
      | Some p \<Rightarrow> (case b of None \<Rightarrow> Some p | Some q \<Rightarrow> Some (\<lambda>r. p r \<and> q r)))"

definition where_sql :: "condition option \<Rightarrow> row list \<Rightarrow> row list" where
  "where_sql cond rs = (case cond of None \<Rightarrow> rs | Some p \<Rightarrow> filter p rs)"

definition orderBy_desc :: "(row \<Rightarrow> nat) \<Rightarrow> row list \<Rightarrow> row list" where
  "orderBy_desc column rs = rev (sort_key column rs)"

text \<open>\<^verbatim>\<open>db.select().from(items).where(cond).orderBy(desc(items.id)).limit(100)\<close>.\<close>

definition db_select :: "condition option \<Rightarrow> world \<Rightarrow> exn + row list" where
  "db_select cond w =
     (if dbFails w then Inl DbError
      else Inr (take 100 (orderBy_desc rowId (where_sql cond (items w)))))"

text \<open>
  The two aggregates. \<^verbatim>\<open>count()\<close> is never NULL; \<^verbatim>\<open>max(items.id)\<close> is NULL (\<open>None\<close>) over
  no rows.
\<close>

datatype aggregate = Count | MaxId

fun max_sql :: "nat list \<Rightarrow> nat option" where
  "max_sql [] = None"
| "max_sql (x # xs) = (case max_sql xs of None \<Rightarrow> Some x | Some m \<Rightarrow> Some (max x m))"

definition aggregate_value :: "aggregate \<Rightarrow> row list \<Rightarrow> nat option" where
  "aggregate_value a rs =
     (case a of Count \<Rightarrow> Some (length rs) | MaxId \<Rightarrow> max_sql (map rowId rs))"

text \<open>
  \<^verbatim>\<open>db.select({ value: a }).from(items).where(cond)\<close>: an aggregate without grouping
  gives one result row, here the list of its one \<^verbatim>\<open>value\<close>.
\<close>

definition db_select_value ::
  "aggregate \<Rightarrow> condition option \<Rightarrow> world \<Rightarrow> exn + nat option list" where
  "db_select_value a cond w =
     (if dbFails w then Inl DbError
      else Inr [aggregate_value a (where_sql cond (items w))])"

subsection \<open>Results and control flow\<close>

text \<open>A return type \<^verbatim>\<open>T | false\<close>.\<close>

datatype 'a or_false = Got 'a | FalseResult

text \<open>
  An exported function returns a promise. Its outcome is \<open>Inr v\<close> when it is fulfilled
  with \<open>v\<close> and \<open>Inl e\<close> when it is rejected, that is when \<open>e\<close> propagates to the caller.
\<close>

type_synonym 'a outcome = "(exn + 'a) \<times> world"

definition try_catch :: "'a outcome \<Rightarrow> (exn \<Rightarrow> world \<Rightarrow> 'a outcome) \<Rightarrow> 'a outcome" where
  "try_catch body handler =
     (case body of (Inl error, w) \<Rightarrow> handler error w | (Inr v, w) \<Rightarrow> (Inr v, w))"

text \<open>An optional boolean parameter, \<open>None\<close> when the caller leaves it out.\<close>

definition truthy :: "bool option \<Rightarrow> bool" where
  "truthy b = (b = Some True)"

text \<open>\<^verbatim>\<open>x ?? null\<close> on an optional field, and what an insert stores for it.\<close>

definition or_null :: "optional_nullable \<Rightarrow> string option" where
  "or_null x = (case x of Str s \<Rightarrow> Some s | Null \<Rightarrow> None | Undefined \<Rightarrow> None)"

text \<open>
  What the ORM stores for a value passed as it is: a key whose value is \<^verbatim>\<open>undefined\<close>
  is left out of the statement and the nullable column \<open>phase\<close> gets NULL.
\<close>

definition column_value :: "optional_nullable \<Rightarrow> string option" where
  "column_value x = (case x of Undefined \<Rightarrow> None | Null \<Rightarrow> None | Str s \<Rightarrow> Some s)"

subsection \<open>The validation schema\<close>

definition trustedImage :: "string \<Rightarrow> bool" where
  "trustedImage url =
     (startsWith url ''https://raw.githubusercontent.com/ByMykel'' \<or>
      startsWith url ''https://steamcdn-a.akamaihd.net/apps/730/icons'')"

text \<open>
  \<^verbatim>\<open>dataSchema.safeParse({ caseData, itemData }).success\<close>. The fields the schema wants
  as strings are strings by the types of the records, and \<open>item_phase\<close> is optional and
  nullable in both; what is left to check is the two \<^verbatim>\<open>refine\<close> predicates.
\<close>

definition dataSchema :: "'z case_data_scheme \<Rightarrow> item_type \<Rightarrow> bool" where
  "dataSchema c i = (trustedImage (case_image c) \<and> trustedImage (item_image i))"

subsection \<open>The query functions\<close>

definition itemIsCovert :: condition where
  "itemIsCovert = inArray rarity [''Covert'', ''Extraordinary'']"

definition itemIsPersonal :: "string \<Rightarrow> condition" where
  "itemIsPersonal ident = eq_sql unboxerId ident"

text \<open>
  The argument of \<^verbatim>\<open>where\<close> in both query functions. The identifier is resolved (and
  the cookie possibly written) only when \<^verbatim>\<open>onlyPersonal\<close> is truthy.
\<close>

definition queryCondition :: "bool option \<Rightarrow> bool option \<Rightarrow> world \<Rightarrow> condition option \<times> world" where
  "queryCondition onlyCoverts onlyPersonal w =
     (let covert = (if truthy onlyCoverts then Some itemIsCovert else None)
      in if truthy onlyPersonal
         then (let (ident, w1) = getOrCreateUnboxerIdCookie w
               in (and_sql covert (Some (itemIsPersonal ident)), w1))
         else (and_sql covert None, w))"

definition getItemsFromDB ::
  "bool option \<Rightarrow> bool option \<Rightarrow> world \<Rightarrow> row list or_false outcome" where
  "getItemsFromDB onlyCoverts onlyPersonal w =
     try_catch
       (let (cond, w1) = queryCondition onlyCoverts onlyPersonal w
        in case db_select cond w1 of
             Inl e \<Rightarrow> (Inl e, w1)
           | Inr rows \<Rightarrow> (Inr (Got rows), w1))
       (\<lambda>error w'. (Inr FalseResult, w'))"

definition getTotalItemsFromDB ::
  "bool option \<Rightarrow> bool option \<Rightarrow> world \<Rightarrow> nat or_false outcome" where
  "getTotalItemsFromDB onlyCoverts onlyPersonal w =
     try_catch
       (let a = (if truthy onlyCoverts \<or> truthy onlyPersonal then Count else MaxId);
            (cond, w1) = queryCondition onlyCoverts onlyPersonal w
        in case db_select_value a cond w1 of
             Inl e \<Rightarrow> (Inl e, w1)
           | Inr totalItems \<Rightarrow>
               (case totalItems of
                  [] \<Rightarrow> (Inl TypeError, w1)
                | v # _ \<Rightarrow> (Inr (Got (case v of None \<Rightarrow> 0 | Some n \<Rightarrow> n)), w1)))
       (\<lambda>error w'. (Inr FalseResult, w'))"

subsection \<open>The insert functions\<close>

text \<open>
  \<^verbatim>\<open>addItemToDB\<close> up to its first \<^verbatim>\<open>await\<close>. An asynchronous function runs inside
  the call until then, and \<^verbatim>\<open>getOrCreateUnboxerIdCookie\<close> has no \<^verbatim>\<open>await\<close> of its own:
  the validation and the cookie are done when the caller gets the promise, the insert
  is not.
\<close>

definition addItemToDB_begin :: "'z case_data_scheme \<Rightarrow> item_type \<Rightarrow> world \<Rightarrow> pending \<times> world" where
  "addItemToDB_begin c i w =
     (if \<not> dataSchema c i then (Fulfilled False, w)
      else (let (ident, w1) = getOrCreateUnboxerIdCookie w
            in (Suspended
                  \<lparr>caseId = case_id c, caseName = case_name c, caseImage = case_image c,
                   itemId = item_id i, itemName = item_name i,
                   rarity = rarity_name (item_rarity i),
                   phase = column_value (item_phase i),
                   itemImage = item_image i, unboxerId = ident\<rparr>, w1)))"

text \<open>The rest of \<^verbatim>\<open>addItemToDB\<close>: the \<^verbatim>\<open>try\<close> block with the insert.\<close>

definition addItemToDB_resume :: "item_values \<Rightarrow> world \<Rightarrow> bool outcome" where
  "addItemToDB_resume v w =
     try_catch
       (case db_insert [v] w of
          (Inl e, w') \<Rightarrow> (Inl e, w')
        | (Inr u, w') \<Rightarrow> (Inr True, w'))
       (\<lambda>error w'. (Inr False, w'))"

text \<open>How a promise of \<^verbatim>\<open>addItemToDB\<close> settles, in the world it is resumed in.\<close>

fun settle :: "pending \<Rightarrow> world \<Rightarrow> bool outcome" where
  "settle (Fulfilled b) w = (Inr b, w)"
| "settle (Suspended v) w = addItemToDB_resume v w"

text \<open>\<^verbatim>\<open>await addItemToDB(caseData, itemData)\<close>.\<close>

definition addItemToDB :: "'z case_data_scheme \<Rightarrow> item_type \<Rightarrow> world \<Rightarrow> bool outcome" where
  "addItemToDB c i w = (let (p, w1) = addItemToDB_begin c i w in settle p w1)"

definition addItemsToDB :: "payload list \<Rightarrow> world \<Rightarrow> bool outcome" where
  "addItemsToDB data w =
     (if \<not> list_all (\<lambda>d. dataSchema (caseData d) (itemData d)) data then (Inr False, w)
      else (let (ident, w1) = getOrCreateUnboxerIdCookie w
            in try_catch
                 (case db_insert
                         (map (\<lambda>item.
                            \<lparr>caseId = case_id (caseData item),
                             caseName = case_name (caseData item),
                             caseImage = case_image (caseData item),
                             itemId = item_id (itemData item),
                             itemName = item_name (itemData item),
                             rarity = rarity_name (item_rarity (itemData item)),
                             phase = or_null (item_phase (itemData item)),
                             itemImage = item_image (itemData item),
                             unboxerId = ident\<rparr>) data) w1 of
                    (Inl e, w') \<Rightarrow> (Inl e, w')
                  | (Inr u, w') \<Rightarrow> (Inr True, w'))
                 (\<lambda>error w'. (Inr False, w'))))"

subsection \<open>unboxCase\<close>

text \<open>
  The catalog \<open>casesData\<close> (three bundled JSON files) and the helper \<open>getItem\<close>
  (\<^verbatim>\<open>@/utils/getItem\<close>, a random draw) are not among the sources and are parameters.
  \<open>getItem c\<close> is the item the helper gives in this call.
\<close>

definition unboxCase ::
  "'z case_data_scheme list \<Rightarrow> ('z case_data_scheme \<Rightarrow> item_type) \<Rightarrow> string \<Rightarrow> world \<Rightarrow>
     item_type or_false outcome" where
  "unboxCase casesData getItem ident w =
     (case find (\<lambda>x. case_id x = ident) casesData of
        None \<Rightarrow> (Inr FalseResult, w)
      | Some c \<Rightarrow>
          (let openedItem = getItem c;
               w1 = (if \<not> startsWith (case_id c) ''crate-custom''
                     then (let (p, w') = addItemToDB_begin c openedItem w in waitUntil p w')
                     else w)
           in (Inr (Got openedItem), w1)))"

subsection \<open>Sample inputs\<close>

text \<open>Concrete cookies, worlds, catalog entries and rows, for the instances below.\<close>

definition sampleUUID :: string where
  "sampleUUID = ''3f2a9c1e-7b4d-4e8a-9c0f-5d6e7f8a9b0c''"

definition otherUUID :: string where
  "otherUUID = ''0B6F1D2C-93aa-4c55-b1e7-2a4c6e8f0d13''"

definition sampleCookie :: "string \<Rightarrow> cookie" where
  "sampleCookie v = \<lparr>cookieValue = v, cookieExpires = None, cookieHttpOnly = False\<rparr>"

definition sampleWorld :: "(string \<rightharpoonup> cookie) \<Rightarrow> row list \<Rightarrow> bool \<Rightarrow> world" where
  "sampleWorld store rs down =
     \<lparr>cookieStore = store, uuidSupply = (\<lambda>n. sampleUUID), uuidsDrawn = 0,
      clock = 1700000000000, items = rs, serial = length rs, dbFails = down, waited = []\<rparr>"

definition sampleCase :: "string \<Rightarrow> case_data" where
  "sampleCase ident =
     \<lparr>case_id = ident, case_name = ''Chroma Case'',
      case_image = ''https://raw.githubusercontent.com/ByMykel/cases/chroma.png''\<rparr>"

definition trustedUrl :: string where
  "trustedUrl = ''https://steamcdn-a.akamaihd.net/apps/730/icons/ak47.png''"

definition sampleItem :: "optional_nullable \<Rightarrow> string \<Rightarrow> item_type" where
  "sampleItem ph url =
     \<lparr>item_id = ''skin-4187'', item_name = ''AK-47 | Cartel'',
      item_rarity = \<lparr>rarity_name = ''Classified''\<rparr>, item_phase = ph, item_image = url\<rparr>"

definition sampleGetItem :: "case_data \<Rightarrow> item_type" where
  "sampleGetItem c = sampleItem Undefined trustedUrl"

definition sampleCatalog :: "case_data list" where
  "sampleCatalog = [sampleCase ''crate-1'', sampleCase ''crate-custom-7'']"

definition sampleRow :: "nat \<Rightarrow> string \<Rightarrow> string option \<Rightarrow> string \<Rightarrow> row" where
  "sampleRow n r ph u =
     \<lparr>caseId = ''crate-1'', caseName = ''Chroma Case'',
      caseImage = ''https://raw.githubusercontent.com/ByMykel/cases/chroma.png'',
      itemId = ''skin-4187'', itemName = ''AK-47 | Cartel'', rarity = r, phase = ph,
      itemImage = ''https://steamcdn-a.akamaihd.net/apps/730/icons/ak47.png'',
      unboxerId = u, rowId = n\<rparr>"

definition sampleRows :: "row list" where
  "sampleRows =
     [sampleRow 1 ''Covert'' None sampleUUID, sampleRow 2 ''Classified'' None sampleUUID,
      sampleRow 3 ''Extraordinary'' None otherUUID,
      sampleRow 4 ''Extraordinary'' None sampleUUID]"

definition samplePayloads :: "payload list" where
  "samplePayloads =
     [\<lparr>caseData = sampleCase ''crate-1'', itemData = sampleItem (Str ''Phase 2'') trustedUrl\<rparr>,
      \<lparr>caseData = sampleCase ''crate-1'', itemData = sampleItem Null trustedUrl\<rparr>,
      \<lparr>caseData = sampleCase ''crate-1'', itemData = sampleItem Undefined trustedUrl\<rparr>]"

section \<open>Properties\<close>

subsection \<open>Facts about the sample inputs\<close>

lemma sampleUUID_valid: "isValidUUID sampleUUID"
  by code_simp

lemma otherUUID_valid: "isValidUUID otherUUID"
  by code_simp

lemma malformed_invalid: "\<not> isValidUUID ''not-a-uuid''"
  by code_simp

lemma version_six_invalid: "\<not> isValidUUID ''3f2a9c1e-7b4d-6e8a-9c0f-5d6e7f8a9b0c''"
  by code_simp

lemma trustedUrl_trusted: "trustedImage trustedUrl"
  by code_simp

lemma sampleCase_trusted: "trustedImage (case_image (sampleCase ident))"
  by (simp add: sampleCase_def trustedImage_def startsWith_def)

lemma example_untrusted: "\<not> trustedImage ''https://example.com/ak47.png''"
  by code_simp

lemma sample_dataSchema: "dataSchema (sampleCase ident) (sampleItem ph trustedUrl)"
  by (simp add: dataSchema_def sampleCase_trusted sampleItem_def trustedUrl_trusted)

lemma sampleUUIDs_differ: "sampleUUID \<noteq> otherUUID"
  by (simp add: sampleUUID_def otherUUID_def)

subsection \<open>What the cookie function leaves alone\<close>

lemma newUnboxerIdCookie_frame:
  "items (snd (newUnboxerIdCookie w)) = items w"
  "dbFails (snd (newUnboxerIdCookie w)) = dbFails w"
  "serial (snd (newUnboxerIdCookie w)) = serial w"
  "waited (snd (newUnboxerIdCookie w)) = waited w"
  by (simp_all add: newUnboxerIdCookie_def randomUUID_def cookies_set_def)

lemma getOrCreateUnboxerIdCookie_frame:
  "items (snd (getOrCreateUnboxerIdCookie w)) = items w"
  "dbFails (snd (getOrCreateUnboxerIdCookie w)) = dbFails w"
  "serial (snd (getOrCreateUnboxerIdCookie w)) = serial w"
  "waited (snd (getOrCreateUnboxerIdCookie w)) = waited w"
  by (simp_all add: getOrCreateUnboxerIdCookie_def newUnboxerIdCookie_frame split: option.split)

lemma queryCondition_frame:
  "items (snd (queryCondition oc op w)) = items w"
  "dbFails (snd (queryCondition oc op w)) = dbFails w"
  by (simp_all add: queryCondition_def Let_def case_prod_beta getOrCreateUnboxerIdCookie_frame)

lemma sample_ident:
  "fst (getOrCreateUnboxerIdCookie
          (sampleWorld [''unboxerId'' \<mapsto> sampleCookie sampleUUID] rs down)) = sampleUUID"
  by (simp add: getOrCreateUnboxerIdCookie_def cookies_get_def sampleWorld_def
      sampleCookie_def sampleUUID_valid)

subsection \<open>The visitor's identifier\<close>

text \<open>
  C1. In every world: with no cookie \<^verbatim>\<open>unboxerId\<close>, the function draws a UUID, sets the
  cookie to it (HTTP-only, expiring a year after the clock) and returns it; with a
  cookie whose value matches the pattern, it returns that value and changes nothing;
  with a cookie whose value does not match, it draws a UUID, overwrites the cookie and
  returns the UUID. Whenever the platform's generator gives a string of the pattern,
  the value returned is of the pattern and is the value of the cookie afterwards.
\<close>

theorem getOrCreateUnboxerIdCookie_cases:
  "(cookieStore w ''unboxerId'' = None \<longrightarrow>
      getOrCreateUnboxerIdCookie w =
        (uuidSupply w (uuidsDrawn w),
         w\<lparr>uuidsDrawn := Suc (uuidsDrawn w),
           cookieStore := (cookieStore w)(''unboxerId'' \<mapsto>
             \<lparr>cookieValue = uuidSupply w (uuidsDrawn w),
              cookieExpires = Some (clock w + 31536000000),
              cookieHttpOnly = True\<rparr>)\<rparr>)) \<and>
   (\<forall>c. cookieStore w ''unboxerId'' = Some c \<and> isValidUUID (cookieValue c) \<longrightarrow>
      getOrCreateUnboxerIdCookie w = (cookieValue c, w)) \<and>
   (\<forall>c. cookieStore w ''unboxerId'' = Some c \<and> \<not> isValidUUID (cookieValue c) \<longrightarrow>
      getOrCreateUnboxerIdCookie w =
        (uuidSupply w (uuidsDrawn w),
         w\<lparr>uuidsDrawn := Suc (uuidsDrawn w),
           cookieStore := (cookieStore w)(''unboxerId'' \<mapsto>
             \<lparr>cookieValue = uuidSupply w (uuidsDrawn w),
              cookieExpires = Some (clock w + 31536000000),
              cookieHttpOnly = True\<rparr>)\<rparr>)) \<and>
   (isValidUUID (uuidSupply w (uuidsDrawn w)) \<longrightarrow>
      isValidUUID (fst (getOrCreateUnboxerIdCookie w)) \<and>
      (\<exists>c. cookieStore (snd (getOrCreateUnboxerIdCookie w)) ''unboxerId'' = Some c \<and>
           cookieValue c = fst (getOrCreateUnboxerIdCookie w)))"
  by (cases "cookieStore w ''unboxerId''")
    (simp_all add: getOrCreateUnboxerIdCookie_def newUnboxerIdCookie_def randomUUID_def
      cookies_get_def cookies_set_def)

theorem getOrCreateUnboxerIdCookie_cases_witness:
  "cookieStore (sampleWorld Map.empty [] False) ''unboxerId'' = None \<and>
   isValidUUID sampleUUID \<and>
   fst (getOrCreateUnboxerIdCookie (sampleWorld Map.empty [] False)) = sampleUUID \<and>
   cookieStore (snd (getOrCreateUnboxerIdCookie (sampleWorld Map.empty [] False)))
       ''unboxerId'' =
     Some \<lparr>cookieValue = sampleUUID, cookieExpires = Some 1731536000000,
           cookieHttpOnly = True\<rparr> \<and>
   isValidUUID otherUUID \<and>
   getOrCreateUnboxerIdCookie
       (sampleWorld [''unboxerId'' \<mapsto> sampleCookie otherUUID] [] False) =
     (otherUUID, sampleWorld [''unboxerId'' \<mapsto> sampleCookie otherUUID] [] False) \<and>
   \<not> isValidUUID ''not-a-uuid'' \<and>
   fst (getOrCreateUnboxerIdCookie
          (sampleWorld [''unboxerId'' \<mapsto> sampleCookie ''not-a-uuid''] [] False)) =
     sampleUUID \<and>
   cookieStore (snd (getOrCreateUnboxerIdCookie
          (sampleWorld [''unboxerId'' \<mapsto> sampleCookie ''not-a-uuid''] [] False)))
       ''unboxerId'' =
     Some \<lparr>cookieValue = sampleUUID, cookieExpires = Some 1731536000000,
           cookieHttpOnly = True\<rparr>"
  using getOrCreateUnboxerIdCookie_cases [of "sampleWorld Map.empty [] False"]
    getOrCreateUnboxerIdCookie_cases
      [of "sampleWorld [''unboxerId'' \<mapsto> sampleCookie otherUUID] [] False"]
    getOrCreateUnboxerIdCookie_cases
      [of "sampleWorld [''unboxerId'' \<mapsto> sampleCookie ''not-a-uuid''] [] False"]
    sampleUUID_valid otherUUID_valid malformed_invalid
  by (simp add: sampleWorld_def sampleCookie_def)

subsection \<open>Unboxing a case\<close>

text \<open>
  C2. For every case identifier that no entry of the catalog has, \<^verbatim>\<open>unboxCase\<close>
  returns \<^verbatim>\<open>false\<close> and leaves the world as it was: the table is unchanged and no
  promise is handed to \<^verbatim>\<open>waitUntil\<close>, so no insert is executed or scheduled.
\<close>

theorem unboxCase_unknown_case:
  assumes "ident \<notin> case_id ` set casesData"
  shows "unboxCase casesData getItem ident w = (Inr FalseResult, w)"
proof -
  from assms have "find (\<lambda>x. case_id x = ident) casesData = None"
    by (auto simp: find_None_iff)
  then show ?thesis by (simp add: unboxCase_def)
qed

theorem unboxCase_unknown_case_witness:
  "''crate-9'' \<notin> case_id ` set sampleCatalog \<and>
   unboxCase sampleCatalog sampleGetItem ''crate-9'' (sampleWorld Map.empty sampleRows False) =
     (Inr FalseResult, sampleWorld Map.empty sampleRows False)"
  using unboxCase_unknown_case [of "''crate-9''" sampleCatalog sampleGetItem
      "sampleWorld Map.empty sampleRows False"]
  by (simp add: sampleCatalog_def sampleCase_def)

text \<open>
  C3. For every entry of the catalog whose identifier starts with \<^verbatim>\<open>crate-custom\<close>,
  \<^verbatim>\<open>unboxCase\<close> on that identifier returns an item and leaves the world as it was: the
  table and its serial are unchanged and the promises handed to \<^verbatim>\<open>waitUntil\<close> are the
  same, so nothing is written and nothing is scheduled.
\<close>

theorem unboxCase_custom_case_no_write:
  assumes "c \<in> set casesData" and "startsWith (case_id c) ''crate-custom''"
  shows "(\<exists>item. unboxCase casesData getItem (case_id c) w = (Inr (Got item), w)) \<and>
         items (snd (unboxCase casesData getItem (case_id c) w)) = items w \<and>
         serial (snd (unboxCase casesData getItem (case_id c) w)) = serial w \<and>
         waited (snd (unboxCase casesData getItem (case_id c) w)) = waited w"
proof -
  from assms(1) obtain c' where f: "find (\<lambda>x. case_id x = case_id c) casesData = Some c'"
    by (cases "find (\<lambda>x. case_id x = case_id c) casesData") (auto simp: find_None_iff)
  then have "case_id c' = case_id c" by (auto simp: find_Some_iff)
  with f assms(2) show ?thesis by (simp add: unboxCase_def)
qed

theorem unboxCase_custom_case_no_write_witness:
  "sampleCase ''crate-custom-7'' \<in> set sampleCatalog \<and>
   startsWith (case_id (sampleCase ''crate-custom-7'')) ''crate-custom'' \<and>
   unboxCase sampleCatalog sampleGetItem ''crate-custom-7''
       (sampleWorld Map.empty sampleRows False) =
     (Inr (Got (sampleItem Undefined trustedUrl)), sampleWorld Map.empty sampleRows False)"
proof -
  have p: "startsWith (case_id (sampleCase ''crate-custom-7'')) ''crate-custom''"
    by (simp add: sampleCase_def startsWith_def)
  have m: "sampleCase ''crate-custom-7'' \<in> set sampleCatalog"
    by (simp add: sampleCatalog_def)
  have i: "fst (unboxCase sampleCatalog sampleGetItem ''crate-custom-7''
             (sampleWorld Map.empty sampleRows False)) =
           Inr (Got (sampleItem Undefined trustedUrl))"
    by (simp add: unboxCase_def sampleCatalog_def sampleCase_def sampleGetItem_def Let_def)
  from unboxCase_custom_case_no_write [OF m p, of sampleGetItem
      "sampleWorld Map.empty sampleRows False"] i p m
  show ?thesis by (auto simp: sampleCase_def)
qed

text \<open>
  C4. For every identifier the catalog has, with \<open>c\<close> the first entry of that identifier
  (the one \<^verbatim>\<open>find\<close> gives), \<^verbatim>\<open>unboxCase\<close> returns the item \<open>getItem c\<close>, in every world;
  in particular the value is the same whether the database accepts or refuses the
  deferred insert.
\<close>

theorem unboxCase_returns_drawn_item:
  assumes "find (\<lambda>x. case_id x = ident) casesData = Some c"
  shows "fst (unboxCase casesData getItem ident w) = Inr (Got (getItem c)) \<and>
         fst (unboxCase casesData getItem ident (w\<lparr>dbFails := \<not> dbFails w\<rparr>)) =
           fst (unboxCase casesData getItem ident w)"
  using assms by (simp add: unboxCase_def Let_def)

theorem unboxCase_returns_drawn_item_witness:
  "find (\<lambda>x. case_id x = ''crate-1'') sampleCatalog = Some (sampleCase ''crate-1'') \<and>
   fst (unboxCase sampleCatalog sampleGetItem ''crate-1''
          (sampleWorld Map.empty sampleRows False)) =
     Inr (Got (sampleItem Undefined trustedUrl)) \<and>
   fst (unboxCase sampleCatalog sampleGetItem ''crate-1''
          (sampleWorld Map.empty sampleRows True)) =
     Inr (Got (sampleItem Undefined trustedUrl))"
proof -
  have f: "find (\<lambda>x. case_id x = ''crate-1'') sampleCatalog = Some (sampleCase ''crate-1'')"
    by (simp add: sampleCatalog_def sampleCase_def)
  from unboxCase_returns_drawn_item [OF f, of sampleGetItem
      "sampleWorld Map.empty sampleRows False"]
    unboxCase_returns_drawn_item [OF f, of sampleGetItem
      "sampleWorld Map.empty sampleRows True"] f
  show ?thesis by (simp add: sampleGetItem_def)
qed

subsection \<open>Validation\<close>

lemma addItemToDB_invalid: "\<not> dataSchema c i \<Longrightarrow> addItemToDB c i w = (Inr False, w)"
  by (simp add: addItemToDB_def addItemToDB_begin_def)

lemma addItemsToDB_invalid:
  "\<not> list_all (\<lambda>d. dataSchema (caseData d) (itemData d)) data \<Longrightarrow>
     addItemsToDB data w = (Inr False, w)"
  by (simp add: addItemsToDB_def)

text \<open>
  C5. When the image URL of the case or of the item starts with neither trusted
  prefix, the schema rejects the pair and \<^verbatim>\<open>addItemToDB\<close> returns \<^verbatim>\<open>false\<close> in an
  unchanged world. When some element of the array given to \<^verbatim>\<open>addItemsToDB\<close> has such a
  URL, the array schema rejects the array and \<^verbatim>\<open>addItemsToDB\<close> returns \<^verbatim>\<open>false\<close> in an
  unchanged world. In both, no row is inserted (and no cookie is set).
\<close>

theorem untrusted_image_rejected:
  "(\<not> trustedImage (case_image c) \<or> \<not> trustedImage (item_image i) \<longrightarrow>
      \<not> dataSchema c i \<and> addItemToDB c i w = (Inr False, w)) \<and>
   ((\<exists>d \<in> set data. \<not> trustedImage (case_image (caseData d)) \<or>
                     \<not> trustedImage (item_image (itemData d))) \<longrightarrow>
      \<not> list_all (\<lambda>d. dataSchema (caseData d) (itemData d)) data \<and>
      addItemsToDB data w = (Inr False, w))"
proof (intro conjI impI)
  assume "\<not> trustedImage (case_image c) \<or> \<not> trustedImage (item_image i)"
  then show "\<not> dataSchema c i" by (auto simp: dataSchema_def)
  then show "addItemToDB c i w = (Inr False, w)" by (rule addItemToDB_invalid)
next
  assume "\<exists>d \<in> set data. \<not> trustedImage (case_image (caseData d)) \<or>
                     \<not> trustedImage (item_image (itemData d))"
  then show "\<not> list_all (\<lambda>d. dataSchema (caseData d) (itemData d)) data"
    by (auto simp: dataSchema_def list_all_iff)
  then show "addItemsToDB data w = (Inr False, w)" by (rule addItemsToDB_invalid)
qed

theorem untrusted_image_rejected_witness:
  "\<not> trustedImage (item_image (sampleItem Null ''https://example.com/ak47.png'')) \<and>
   addItemToDB (sampleCase ''crate-1'') (sampleItem Null ''https://example.com/ak47.png'')
       (sampleWorld Map.empty sampleRows False) =
     (Inr False, sampleWorld Map.empty sampleRows False) \<and>
   addItemsToDB
       (samplePayloads @
        [\<lparr>caseData = sampleCase ''crate-1'',
          itemData = sampleItem Null ''https://example.com/ak47.png''\<rparr>])
       (sampleWorld Map.empty sampleRows False) =
     (Inr False, sampleWorld Map.empty sampleRows False)"
proof -
  have u: "\<not> trustedImage (item_image (sampleItem Null ''https://example.com/ak47.png''))"
    by (simp add: sampleItem_def example_untrusted)
  from untrusted_image_rejected [of "sampleCase ''crate-1''"
      "sampleItem Null ''https://example.com/ak47.png''"
      "sampleWorld Map.empty sampleRows False"
      "samplePayloads @
        [\<lparr>caseData = sampleCase ''crate-1'',
          itemData = sampleItem Null ''https://example.com/ak47.png''\<rparr>]"] u
  show ?thesis by simp
qed

subsection \<open>Queries\<close>

lemma queryCondition_filter:
  "where_sql (fst (queryCondition oc op w)) rs =
     filter (\<lambda>r. (oc = Some True \<longrightarrow> rarity r = ''Covert'' \<or> rarity r = ''Extraordinary'') \<and>
                 (op = Some True \<longrightarrow> unboxerId r = fst (getOrCreateUnboxerIdCookie w))) rs"
  by (auto simp add: queryCondition_def Let_def case_prod_beta where_sql_def and_sql_def
      truthy_def itemIsCovert_def itemIsPersonal_def inArray_def eq_sql_def intro!: filter_cong)

lemma getItemsFromDB_eq:
  "fst (getItemsFromDB oc op w) =
     (if dbFails w then Inr FalseResult
      else Inr (Got (take 100 (orderBy_desc rowId
             (where_sql (fst (queryCondition oc op w)) (items w))))))"
  by (simp add: getItemsFromDB_def try_catch_def db_select_def case_prod_beta queryCondition_frame)

lemma orderBy_desc_sorted: "sorted_wrt (\<ge>) (map rowId (orderBy_desc rowId rs))"
proof -
  have "sorted (map rowId (sort_key rowId rs))" by (rule sorted_sort_key)
  then have "sorted_wrt (\<lambda>x y. y \<le> x) (rev (map rowId (sort_key rowId rs)))"
    by (simp add: sorted_wrt_rev)
  then show ?thesis by (simp add: orderBy_desc_def rev_map)
qed

lemma set_orderBy_desc: "set (orderBy_desc f rs) = set rs"
  by (simp add: orderBy_desc_def)

text \<open>
  C6. For every pair of optional flags: when the database answers, \<^verbatim>\<open>getItemsFromDB\<close>
  returns rows; and whenever it returns rows, they are at most 100 rows of the table, in
  descending order of \<^verbatim>\<open>id\<close>; with \<^verbatim>\<open>onlyCoverts\<close> true each has rarity "Covert" or
  "Extraordinary"; with \<^verbatim>\<open>onlyPersonal\<close> true each has the \<^verbatim>\<open>unboxerId\<close> that
  \<^verbatim>\<open>getOrCreateUnboxerIdCookie\<close> gives the requester; with both, both.
\<close>

theorem getItemsFromDB_rows:
  "(\<not> dbFails w \<longrightarrow> (\<exists>rs. fst (getItemsFromDB oc op w) = Inr (Got rs))) \<and>
   (\<forall>rs. fst (getItemsFromDB oc op w) = Inr (Got rs) \<longrightarrow>
      length rs \<le> 100 \<and>
      sorted_wrt (\<ge>) (map rowId rs) \<and>
      set rs \<subseteq> set (items w) \<and>
      (oc = Some True \<longrightarrow>
         (\<forall>r \<in> set rs. rarity r = ''Covert'' \<or> rarity r = ''Extraordinary'')) \<and>
      (op = Some True \<longrightarrow>
         (\<forall>r \<in> set rs. unboxerId r = fst (getOrCreateUnboxerIdCookie w))))"
proof (intro conjI allI impI)
  assume "\<not> dbFails w"
  then show "\<exists>rs. fst (getItemsFromDB oc op w) = Inr (Got rs)"
    by (simp add: getItemsFromDB_eq)
next
  fix rs
  assume r: "fst (getItemsFromDB oc op w) = Inr (Got rs)"
  define matching where
    "matching = where_sql (fst (queryCondition oc op w)) (items w)"
  from r have rs: "rs = take 100 (orderBy_desc rowId matching)"
    by (simp add: getItemsFromDB_eq matching_def split: if_splits)
  show "length rs \<le> 100" by (simp add: rs)
  have "sorted_wrt (\<ge>) (take 100 (map rowId (orderBy_desc rowId matching)))"
    using orderBy_desc_sorted by (rule sorted_wrt_take)
  then show "sorted_wrt (\<ge>) (map rowId rs)" by (simp add: rs take_map)
  have sub: "set rs \<subseteq> set matching"
    using set_take_subset [of 100 "orderBy_desc rowId matching"]
    by (simp add: rs set_orderBy_desc)
  show "set rs \<subseteq> set (items w)"
    using sub by (auto simp: matching_def queryCondition_filter)
  { assume "oc = Some True"
    then show "\<forall>r \<in> set rs. rarity r = ''Covert'' \<or> rarity r = ''Extraordinary''"
      using sub by (auto simp: matching_def queryCondition_filter) }
  { assume "op = Some True"
    then show "\<forall>r \<in> set rs. unboxerId r = fst (getOrCreateUnboxerIdCookie w)"
      using sub by (auto simp: matching_def queryCondition_filter) }
qed

theorem getItemsFromDB_rows_witness:
  "\<not> dbFails (sampleWorld [''unboxerId'' \<mapsto> sampleCookie sampleUUID] sampleRows False) \<and>
   fst (getItemsFromDB (Some True) (Some True)
          (sampleWorld [''unboxerId'' \<mapsto> sampleCookie sampleUUID] sampleRows False)) =
     Inr (Got [sampleRow 4 ''Extraordinary'' None sampleUUID,
               sampleRow 1 ''Covert'' None sampleUUID]) \<and>
   fst (getOrCreateUnboxerIdCookie
          (sampleWorld [''unboxerId'' \<mapsto> sampleCookie sampleUUID] sampleRows False)) =
     sampleUUID \<and>
   sorted_wrt (\<ge>) (map rowId [sampleRow 4 ''Extraordinary'' None sampleUUID,
                              sampleRow 1 ''Covert'' None sampleUUID]) \<and>
   list_all (\<lambda>r. unboxerId r = sampleUUID)
     [sampleRow 4 ''Extraordinary'' None sampleUUID, sampleRow 1 ''Covert'' None sampleUUID]"
proof -
  let ?w = "sampleWorld [''unboxerId'' \<mapsto> sampleCookie sampleUUID] sampleRows False"
  have e: "fst (getItemsFromDB (Some True) (Some True) ?w) =
     Inr (Got [sampleRow 4 ''Extraordinary'' None sampleUUID,
               sampleRow 1 ''Covert'' None sampleUUID])"
    using sampleUUIDs_differ
    by (simp add: getItemsFromDB_eq queryCondition_filter sample_ident orderBy_desc_def)
      (simp add: sampleWorld_def sampleRows_def sampleRow_def)
  show ?thesis
    using getItemsFromDB_rows [of ?w "Some True" "Some True"] e sample_ident [of sampleRows False]
    by (simp add: sampleWorld_def)
qed

lemma max_sql_eq: "max_sql xs = (if xs = [] then None else Some (Max (set xs)))"
  by (induction xs) (auto simp: max_def)

lemma getTotalItemsFromDB_eq:
  "fst (getTotalItemsFromDB oc op w) =
     (if dbFails w then Inr FalseResult
      else Inr (Got (case aggregate_value
                           (if truthy oc \<or> truthy op then Count else MaxId)
                           (where_sql (fst (queryCondition oc op w)) (items w)) of
                      None \<Rightarrow> 0 | Some n \<Rightarrow> n)))"
  by (simp add: getTotalItemsFromDB_def try_catch_def db_select_value_def case_prod_beta
      queryCondition_frame Let_def)

text \<open>
  C7. When the database answers: with neither flag true and a table that has rows,
  \<^verbatim>\<open>getTotalItemsFromDB\<close> returns the greatest \<^verbatim>\<open>id\<close> of the table; with \<^verbatim>\<open>onlyCoverts\<close> or
  \<^verbatim>\<open>onlyPersonal\<close> (or both) true, it returns the number of rows of the table that
  satisfy the conditions of the flags that are true.
\<close>

theorem getTotalItemsFromDB_max_or_count:
  assumes "\<not> dbFails w"
  shows "(oc \<noteq> Some True \<and> op \<noteq> Some True \<and> items w \<noteq> [] \<longrightarrow>
           fst (getTotalItemsFromDB oc op w) = Inr (Got (Max (rowId ` set (items w))))) \<and>
         (oc = Some True \<or> op = Some True \<longrightarrow>
           fst (getTotalItemsFromDB oc op w) =
             Inr (Got (length (filter
               (\<lambda>r. (oc = Some True \<longrightarrow> rarity r = ''Covert'' \<or> rarity r = ''Extraordinary'') \<and>
                    (op = Some True \<longrightarrow> unboxerId r = fst (getOrCreateUnboxerIdCookie w)))
               (items w)))))"
proof (intro conjI impI)
  assume "oc \<noteq> Some True \<and> op \<noteq> Some True \<and> items w \<noteq> []"
  then show "fst (getTotalItemsFromDB oc op w) = Inr (Got (Max (rowId ` set (items w))))"
    using assms
    by (simp add: getTotalItemsFromDB_eq queryCondition_filter truthy_def aggregate_value_def
        max_sql_eq)
next
  assume "oc = Some True \<or> op = Some True"
  then have "truthy oc \<or> truthy op" by (simp add: truthy_def)
  then show "fst (getTotalItemsFromDB oc op w) =
             Inr (Got (length (filter
               (\<lambda>r. (oc = Some True \<longrightarrow> rarity r = ''Covert'' \<or> rarity r = ''Extraordinary'') \<and>
                    (op = Some True \<longrightarrow> unboxerId r = fst (getOrCreateUnboxerIdCookie w)))
               (items w))))"
    using assms
    by (simp add: getTotalItemsFromDB_eq queryCondition_filter aggregate_value_def)
qed

theorem getTotalItemsFromDB_max_or_count_witness:
  "\<not> dbFails (sampleWorld [''unboxerId'' \<mapsto> sampleCookie sampleUUID] sampleRows False) \<and>
   items (sampleWorld [''unboxerId'' \<mapsto> sampleCookie sampleUUID] sampleRows False) \<noteq> [] \<and>
   fst (getTotalItemsFromDB None (Some False)
          (sampleWorld [''unboxerId'' \<mapsto> sampleCookie sampleUUID] sampleRows False)) =
     Inr (Got 4) \<and>
   fst (getTotalItemsFromDB (Some True) None
          (sampleWorld [''unboxerId'' \<mapsto> sampleCookie sampleUUID] sampleRows False)) =
     Inr (Got 3) \<and>
   fst (getTotalItemsFromDB (Some True) (Some True)
          (sampleWorld [''unboxerId'' \<mapsto> sampleCookie sampleUUID] sampleRows False)) =
     Inr (Got 2)"
proof -
  let ?w = "sampleWorld [''unboxerId'' \<mapsto> sampleCookie sampleUUID] sampleRows False"
  have d: "\<not> dbFails ?w" by (simp add: sampleWorld_def)
  have i: "items ?w = sampleRows" by (simp add: sampleWorld_def)
  from getTotalItemsFromDB_max_or_count [OF d, of None "Some False"]
  have a: "fst (getTotalItemsFromDB None (Some False) ?w) = Inr (Got 4)"
    by (simp add: i) (simp add: sampleRows_def sampleRow_def)
  from getTotalItemsFromDB_max_or_count [OF d, of "Some True" None]
  have b: "fst (getTotalItemsFromDB (Some True) None ?w) = Inr (Got 3)"
    by (simp add: i) (simp add: sampleRows_def sampleRow_def)
  from getTotalItemsFromDB_max_or_count [OF d, of "Some True" "Some True"] sampleUUIDs_differ
  have c: "fst (getTotalItemsFromDB (Some True) (Some True) ?w) = Inr (Got 2)"
    by (simp add: i sample_ident) (simp add: sampleRows_def sampleRow_def)
  from a b c d i show ?thesis by (simp add: sampleRows_def)
qed

text \<open>
  C10. When the database answers and the value of the aggregate is NULL,
  \<^verbatim>\<open>getTotalItemsFromDB\<close> returns the number 0, not \<^verbatim>\<open>false\<close>; the maximum \<^verbatim>\<open>id\<close> over an
  empty table, asked for without flags, is such a value.
\<close>

theorem getTotalItemsFromDB_null_is_zero:
  assumes "\<not> dbFails w"
  shows "(aggregate_value (if truthy oc \<or> truthy op then Count else MaxId)
            (where_sql (fst (queryCondition oc op w)) (items w)) = None \<longrightarrow>
          fst (getTotalItemsFromDB oc op w) = Inr (Got 0)) \<and>
         (items w = [] \<longrightarrow>
            aggregate_value MaxId (where_sql (fst (queryCondition None None w)) (items w)) =
              None \<and>
            fst (getTotalItemsFromDB None None w) = Inr (Got 0))"
  using assms
  by (simp add: getTotalItemsFromDB_eq aggregate_value_def queryCondition_filter truthy_def)

theorem getTotalItemsFromDB_null_is_zero_witness:
  "\<not> dbFails (sampleWorld Map.empty [] False) \<and>
   items (sampleWorld Map.empty [] False) = [] \<and>
   fst (getTotalItemsFromDB None None (sampleWorld Map.empty [] False)) = Inr (Got 0) \<and>
   Inr (Got 0) \<noteq> (Inr FalseResult :: exn + nat or_false)"
proof -
  have d: "\<not> dbFails (sampleWorld Map.empty [] False)" by (simp add: sampleWorld_def)
  from getTotalItemsFromDB_null_is_zero [OF d, of None None] d
  show ?thesis by (simp add: sampleWorld_def)
qed

subsection \<open>Inserted rows\<close>

lemma db_insert_items:
  "db_insert vs w = (Inr u, w') \<Longrightarrow>
     items w' = items w @ map (\<lambda>(n, v). stored n v) (enumerate (Suc (serial w)) vs)"
  by (auto simp: db_insert_def split: if_splits)

lemma stored_fields: "unboxerId (stored n v) = unboxerId v" "phase (stored n v) = phase v"
  by (simp_all add: stored_def)

lemma addItemsToDB_ok:
  "list_all (\<lambda>d. dataSchema (caseData d) (itemData d)) data \<Longrightarrow> data \<noteq> [] \<Longrightarrow>
     \<not> dbFails w \<Longrightarrow> fst (addItemsToDB data w) = Inr True"
  by (simp add: addItemsToDB_def case_prod_beta try_catch_def db_insert_def
      getOrCreateUnboxerIdCookie_frame)

text \<open>
  C9. A call of \<^verbatim>\<open>addItemsToDB\<close> with a valid, non-empty array succeeds when the
  database answers. Whenever a call succeeds, the table afterwards is the table before
  followed by one new row per element of the array, in order; every new row has the
  \<^verbatim>\<open>unboxerId\<close> that \<^verbatim>\<open>getOrCreateUnboxerIdCookie\<close> gave at the start of the call; and the
  \<^verbatim>\<open>phase\<close> of the k-th new row is the \<^verbatim>\<open>phase\<close> of the k-th element when that is a
  string, and NULL when it is \<^verbatim>\<open>null\<close> or \<^verbatim>\<open>undefined\<close>.
\<close>

theorem addItemsToDB_inserted_rows:
  "(list_all (\<lambda>d. dataSchema (caseData d) (itemData d)) data \<and> data \<noteq> [] \<and> \<not> dbFails w \<longrightarrow>
      fst (addItemsToDB data w) = Inr True) \<and>
   (\<forall>w'. addItemsToDB data w = (Inr True, w') \<longrightarrow>
      (\<exists>new. items w' = items w @ new \<and> length new = length data \<and>
         (\<forall>k < length data.
            unboxerId (new ! k) = fst (getOrCreateUnboxerIdCookie w) \<and>
            phase (new ! k) =
              (case item_phase (itemData (data ! k)) of
                 Str s \<Rightarrow> Some s | Null \<Rightarrow> None | Undefined \<Rightarrow> None))))"
proof (intro conjI allI impI)
  assume "list_all (\<lambda>d. dataSchema (caseData d) (itemData d)) data \<and> data \<noteq> [] \<and> \<not> dbFails w"
  then show "fst (addItemsToDB data w) = Inr True" by (simp add: addItemsToDB_ok)
next
  fix w'
  assume ok: "addItemsToDB data w = (Inr True, w')"
  define ident where "ident = fst (getOrCreateUnboxerIdCookie w)"
  define w1 where "w1 = snd (getOrCreateUnboxerIdCookie w)"
  define vs where "vs = map (\<lambda>item.
      \<lparr>caseId = case_id (caseData item), caseName = case_name (caseData item),
       caseImage = case_image (caseData item), itemId = item_id (itemData item),
       itemName = item_name (itemData item),
       rarity = rarity_name (item_rarity (itemData item)),
       phase = or_null (item_phase (itemData item)),
       itemImage = item_image (itemData item), unboxerId = ident\<rparr>) data"
  define new where "new = map (\<lambda>(n, v). stored n v) (enumerate (Suc (serial w1)) vs)"
  from ok have "db_insert vs w1 = (Inr (), w')"
    by (auto simp: addItemsToDB_def case_prod_beta try_catch_def vs_def w1_def ident_def
        prod_eq_iff split: if_splits prod.splits sum.splits)
  then have "items w' = items w1 @ new"
    unfolding new_def by (rule db_insert_items)
  then have a: "items w' = items w @ new"
    by (simp add: w1_def getOrCreateUnboxerIdCookie_frame)
  have b: "length new = length data" by (simp add: new_def vs_def)
  have c: "unboxerId (new ! k) = ident \<and>
           phase (new ! k) =
             (case item_phase (itemData (data ! k)) of
                Str s \<Rightarrow> Some s | Null \<Rightarrow> None | Undefined \<Rightarrow> None)"
    if "k < length data" for k
    using that
    by (simp add: new_def vs_def nth_enumerate_eq stored_fields or_null_def
        split: optional_nullable.split)
  from a b c show "\<exists>new. items w' = items w @ new \<and> length new = length data \<and>
         (\<forall>k < length data.
            unboxerId (new ! k) = fst (getOrCreateUnboxerIdCookie w) \<and>
            phase (new ! k) =
              (case item_phase (itemData (data ! k)) of
                 Str s \<Rightarrow> Some s | Null \<Rightarrow> None | Undefined \<Rightarrow> None))"
    unfolding ident_def by blast
qed

theorem addItemsToDB_inserted_rows_witness:
  "list_all (\<lambda>d. dataSchema (caseData d) (itemData d)) samplePayloads \<and>
   samplePayloads \<noteq> [] \<and>
   \<not> dbFails (sampleWorld Map.empty sampleRows False) \<and>
   fst (addItemsToDB samplePayloads (sampleWorld Map.empty sampleRows False)) = Inr True \<and>
   fst (getOrCreateUnboxerIdCookie (sampleWorld Map.empty sampleRows False)) = sampleUUID \<and>
   items (snd (addItemsToDB samplePayloads (sampleWorld Map.empty sampleRows False))) =
     sampleRows @
     [sampleRow 5 ''Classified'' (Some ''Phase 2'') sampleUUID,
      sampleRow 6 ''Classified'' None sampleUUID,
      sampleRow 7 ''Classified'' None sampleUUID]"
proof -
  let ?w = "sampleWorld Map.empty sampleRows False"
  have v: "list_all (\<lambda>d. dataSchema (caseData d) (itemData d)) samplePayloads"
    by (simp add: samplePayloads_def sample_dataSchema)
  have n: "samplePayloads \<noteq> []" by (simp add: samplePayloads_def)
  have d: "\<not> dbFails ?w" by (simp add: sampleWorld_def)
  have g: "getOrCreateUnboxerIdCookie ?w = newUnboxerIdCookie ?w"
    by (simp add: getOrCreateUnboxerIdCookie_def cookies_get_def sampleWorld_def)
  have i: "fst (getOrCreateUnboxerIdCookie ?w) = sampleUUID"
    by (simp add: g) (simp add: newUnboxerIdCookie_def randomUUID_def sampleWorld_def)
  have l: "length sampleRows = 4" by (simp add: sampleRows_def)
  have s: "serial (snd (newUnboxerIdCookie ?w)) = 4"
    by (simp add: newUnboxerIdCookie_frame) (simp add: sampleWorld_def l)
  have r: "items (snd (addItemsToDB samplePayloads ?w)) =
     sampleRows @
     [sampleRow 5 ''Classified'' (Some ''Phase 2'') sampleUUID,
      sampleRow 6 ''Classified'' None sampleUUID,
      sampleRow 7 ''Classified'' None sampleUUID]"
    using v n d i
    by (simp add: addItemsToDB_def case_prod_beta try_catch_def db_insert_def g s
        newUnboxerIdCookie_frame)
      (simp add: samplePayloads_def sampleWorld_def sampleRow_def stored_def sampleCase_def
        sampleItem_def trustedUrl_def or_null_def l)
  from addItemsToDB_inserted_rows [of samplePayloads ?w] v n d i r
  show ?thesis by simp
qed

subsection \<open>Failures\<close>

lemma settle_fulfils:
  "\<exists>b. fst (settle p w) = Inr b \<and> (dbFails w \<longrightarrow> p \<noteq> Fulfilled True \<longrightarrow> \<not> b)"
  by (cases p) (auto simp: addItemToDB_resume_def try_catch_def db_insert_def)

lemma addItemToDB_begin_frame:
  "dbFails (snd (addItemToDB_begin c i w)) = dbFails w"
  "waited (snd (addItemToDB_begin c i w)) = waited w"
  "fst (addItemToDB_begin c i w) \<noteq> Fulfilled True"
  "\<not> dataSchema c i \<Longrightarrow> fst (addItemToDB_begin c i w) = Fulfilled False"
  by (simp_all add: addItemToDB_begin_def case_prod_beta getOrCreateUnboxerIdCookie_frame)

lemma addItemToDB_fulfils:
  "\<exists>b. fst (addItemToDB c i w) = Inr b \<and> (\<not> dataSchema c i \<or> dbFails w \<longrightarrow> \<not> b)"
proof (cases "dataSchema c i")
  case False
  then show ?thesis by (auto simp: addItemToDB_def addItemToDB_begin_def)
next
  case True
  obtain b where
    "fst (settle (fst (addItemToDB_begin c i w)) (snd (addItemToDB_begin c i w))) = Inr b \<and>
     (dbFails (snd (addItemToDB_begin c i w)) \<longrightarrow>
        fst (addItemToDB_begin c i w) \<noteq> Fulfilled True \<longrightarrow> \<not> b)"
    using settle_fulfils by blast
  then show ?thesis
    by (auto simp: addItemToDB_def case_prod_beta addItemToDB_begin_frame True)
qed

lemma addItemsToDB_fulfils:
  "\<exists>b. fst (addItemsToDB data w) = Inr b \<and>
       (\<not> list_all (\<lambda>d. dataSchema (caseData d) (itemData d)) data \<or> dbFails w \<longrightarrow> \<not> b)"
  by (auto simp: addItemsToDB_def case_prod_beta try_catch_def db_insert_def
      getOrCreateUnboxerIdCookie_frame)

lemma unboxCase_result:
  "fst (unboxCase casesData getItem ident w) =
     (case find (\<lambda>x. case_id x = ident) casesData of
        None \<Rightarrow> Inr FalseResult | Some c \<Rightarrow> Inr (Got (getItem c)))"
  by (simp add: unboxCase_def Let_def split: option.split)

lemma unboxCase_scheduled:
  assumes "find (\<lambda>x. case_id x = ident) casesData = Some c"
    and "\<not> startsWith (case_id c) ''crate-custom''"
  shows "waited (snd (unboxCase casesData getItem ident w)) =
           waited w @ [fst (addItemToDB_begin c (getItem c) w)]"
  using assms
  by (simp add: unboxCase_def Let_def waitUntil_def case_prod_beta addItemToDB_begin_frame)

text \<open>
  C8. In every world and for every input, each of the five exported operations fulfils
  its promise (\<open>Inr\<close>): no exception propagates to its caller. Each failure becomes a
  \<^verbatim>\<open>false\<close> return value of the operation it occurs in: a validation failure or a
  failing database makes \<^verbatim>\<open>addItemToDB\<close> and \<^verbatim>\<open>addItemsToDB\<close> return \<^verbatim>\<open>false\<close>, and a
  failing database makes \<^verbatim>\<open>getItemsFromDB\<close> and \<^verbatim>\<open>getTotalItemsFromDB\<close> return
  \<^verbatim>\<open>false\<close>. \<^verbatim>\<open>unboxCase\<close> does no validation and sends no statement itself: on a case
  of the catalog that is not custom it hands one promise of \<^verbatim>\<open>addItemToDB\<close> to
  \<^verbatim>\<open>waitUntil\<close> and returns the drawn item; that promise is already fulfilled with
  \<^verbatim>\<open>false\<close> when the validation fails, and in every world it settles fulfilled, with
  \<^verbatim>\<open>false\<close> when the database fails there.
\<close>

theorem failures_become_false:
  "(\<exists>r. fst (unboxCase casesData getItem ident w) = Inr r) \<and>
   (\<forall>c. find (\<lambda>x. case_id x = ident) casesData = Some c \<longrightarrow>
      fst (unboxCase casesData getItem ident w) = Inr (Got (getItem c)) \<and>
      (\<not> startsWith (case_id c) ''crate-custom'' \<longrightarrow>
         (\<exists>p. waited (snd (unboxCase casesData getItem ident w)) = waited w @ [p] \<and>
              (\<not> dataSchema c (getItem c) \<longrightarrow> p = Fulfilled False) \<and>
              (\<forall>w'. \<exists>b. fst (settle p w') = Inr b \<and> (dbFails w' \<longrightarrow> \<not> b))))) \<and>
   (\<exists>b. fst (addItemToDB k i w) = Inr b \<and> (\<not> dataSchema k i \<or> dbFails w \<longrightarrow> \<not> b)) \<and>
   (\<exists>b. fst (addItemsToDB data w) = Inr b \<and>
      (\<not> list_all (\<lambda>d. dataSchema (caseData d) (itemData d)) data \<or> dbFails w \<longrightarrow> \<not> b)) \<and>
   (\<exists>r. fst (getItemsFromDB oc op w) = Inr r \<and> (dbFails w \<longrightarrow> r = FalseResult)) \<and>
   (\<exists>r. fst (getTotalItemsFromDB oc op w) = Inr r \<and> (dbFails w \<longrightarrow> r = FalseResult))"
proof (intro conjI allI impI)
  show "\<exists>r. fst (unboxCase casesData getItem ident w) = Inr r"
    by (simp add: unboxCase_result split: option.split)
next
  fix c
  assume f: "find (\<lambda>x. case_id x = ident) casesData = Some c"
  then show "fst (unboxCase casesData getItem ident w) = Inr (Got (getItem c))"
    by (simp add: unboxCase_result)
  assume n: "\<not> startsWith (case_id c) ''crate-custom''"
  define p where "p = fst (addItemToDB_begin c (getItem c) w)"
  have a: "waited (snd (unboxCase casesData getItem ident w)) = waited w @ [p]"
    unfolding p_def using f n by (rule unboxCase_scheduled)
  have b: "\<not> dataSchema c (getItem c) \<longrightarrow> p = Fulfilled False"
    by (simp add: p_def addItemToDB_begin_frame)
  have "p \<noteq> Fulfilled True" by (simp add: p_def addItemToDB_begin_frame)
  then have "\<forall>w'. \<exists>b. fst (settle p w') = Inr b \<and> (dbFails w' \<longrightarrow> \<not> b)"
    using settle_fulfils [of p] by blast
  with a b show "\<exists>p. waited (snd (unboxCase casesData getItem ident w)) = waited w @ [p] \<and>
              (\<not> dataSchema c (getItem c) \<longrightarrow> p = Fulfilled False) \<and>
              (\<forall>w'. \<exists>b. fst (settle p w') = Inr b \<and> (dbFails w' \<longrightarrow> \<not> b))"
    by blast
next
  show "\<exists>b. fst (addItemToDB k i w) = Inr b \<and> (\<not> dataSchema k i \<or> dbFails w \<longrightarrow> \<not> b)"
    by (rule addItemToDB_fulfils)
  show "\<exists>b. fst (addItemsToDB data w) = Inr b \<and>
      (\<not> list_all (\<lambda>d. dataSchema (caseData d) (itemData d)) data \<or> dbFails w \<longrightarrow> \<not> b)"
    by (rule addItemsToDB_fulfils)
  show "\<exists>r. fst (getItemsFromDB oc op w) = Inr r \<and> (dbFails w \<longrightarrow> r = FalseResult)"
    by (simp add: getItemsFromDB_eq)
  show "\<exists>r. fst (getTotalItemsFromDB oc op w) = Inr r \<and> (dbFails w \<longrightarrow> r = FalseResult)"
    by (simp add: getTotalItemsFromDB_eq)
qed

theorem failures_become_false_witness:
  "dbFails (sampleWorld Map.empty sampleRows True) \<and>
   find (\<lambda>x. case_id x = ''crate-1'') sampleCatalog = Some (sampleCase ''crate-1'') \<and>
   \<not> startsWith (case_id (sampleCase ''crate-1'')) ''crate-custom'' \<and>
   fst (unboxCase sampleCatalog sampleGetItem ''crate-1''
          (sampleWorld Map.empty sampleRows True)) =
     Inr (Got (sampleItem Undefined trustedUrl)) \<and>
   fst (addItemToDB (sampleCase ''crate-1'') (sampleItem Null trustedUrl)
          (sampleWorld Map.empty sampleRows True)) = Inr False \<and>
   fst (addItemsToDB samplePayloads (sampleWorld Map.empty sampleRows True)) = Inr False \<and>
   fst (getItemsFromDB None None (sampleWorld Map.empty sampleRows True)) =
     Inr FalseResult \<and>
   fst (getTotalItemsFromDB None None (sampleWorld Map.empty sampleRows True)) =
     Inr FalseResult"
proof -
  let ?w = "sampleWorld Map.empty sampleRows True"
  have d: "dbFails ?w" by (simp add: sampleWorld_def)
  have f: "find (\<lambda>x. case_id x = ''crate-1'') sampleCatalog = Some (sampleCase ''crate-1'')"
    by (simp add: sampleCatalog_def sampleCase_def)
  have n: "\<not> startsWith (case_id (sampleCase ''crate-1'')) ''crate-custom''"
    by (simp add: sampleCase_def startsWith_def)
  from failures_become_false [of sampleCatalog sampleGetItem "''crate-1''" ?w
      "sampleCase ''crate-1''" "sampleItem Null trustedUrl" samplePayloads None None] d f n
  show ?thesis by (auto simp: sampleGetItem_def)
qed

end
